theory Spec2Isabelle
  imports Complex_Main "HOL-Library.AList"
begin

section \<open>CharacterSystem: roster, favor and favor levels\<close>

text \<open>
  The roster \<open>_characters\<close> is a JavaScript \<open>Map\<close> from character id to a mutable
  \<open>CharacterData\<close> object. It is modelled as an association list in insertion order;
  \<open>Map.get\<close> is \<open>map_of\<close> and \<open>Map.set\<close> is \<open>AList.update\<close> (an existing key keeps
  its position). Mutating a field of the object found in the map is written as an update
  of the entry under the key the object was found with. Favor values are JavaScript
  numbers holding integers; they are modelled as \<open>int\<close>. Events passed to \<open>emit\<close> are
  appended to a log kept in the system's state.
\<close>

record CharacterData =
  char_id :: string
  name :: string
  title :: "string option"
  sprites :: "(string \<times> string) list"
  favor :: int
  maxFavor :: int
  unlocked :: bool
  endings :: "string list"
  events :: "string list"

datatype CharacterEvent =
    CharacterUnlocked CharacterData
  | FavorChanged string string int int
  | FavorLevelUp string string int string
  | EndingUnlocked string string
  | EventRecorded string string

record CharacterSystem =
  cs_characters :: "(string \<times> CharacterData) list"
  cs_emitted :: "CharacterEvent list"

text \<open>One entry of \<open>_characterConfig.characters\<close>; an absent number is \<open>None\<close>.\<close>

record CharacterConfig =
  cfg_id :: string
  cfg_name :: string
  cfg_title :: "string option"
  cfg_sprites :: "(string \<times> string) list"
  cfg_maxFavor :: "int option"
  cfg_defaultFavor :: "int option"

text \<open>\<open>x || d\<close> on an optional number: \<open>undefined\<close> and \<open>0\<close> are falsy.\<close>

definition num_or :: "int option \<Rightarrow> int \<Rightarrow> int" where
  "num_or x d = (case x of None \<Rightarrow> d | Some v \<Rightarrow> (if v = 0 then d else v))"

definition heroine_sprites :: "string \<Rightarrow> (string \<times> string) list" where
  "heroine_sprites p =
     [(''normal'', p @ ''_normal''), (''smile'', p @ ''_smile''), (''blush'', p @ ''_blush''),
      (''angry'', p @ ''_angry''), (''sad'', p @ ''_sad''), (''surprise'', p @ ''_surprise''),
      (''think'', p @ ''_think''), (''laugh'', p @ ''_laugh'')]"

text \<open>
  The roster written in \<open>loadCharacterConfig\<close>. The display names and titles are Chinese
  text, given here as their UTF-8 bytes.
\<close>

definition characterConfig :: "CharacterConfig list" where
  "characterConfig =
     [\<lparr>cfg_id = ''heroine_1'',
       cfg_name = [CHR 0xE6, CHR 0x9E, CHR 0x97, CHR 0xE9, CHR 0x9B, CHR 0xA8, CHR 0xE6, CHR 0x99, CHR 0xB4],
       cfg_title = Some [CHR 0xE5, CHR 0xAD, CHR 0xA6, CHR 0xE7, CHR 0x94, CHR 0x9F, CHR 0xE4, CHR 0xBC,
                         CHR 0x9A, CHR 0xE4, CHR 0xBC, CHR 0x9A, CHR 0xE9, CHR 0x95, CHR 0xBF],
       cfg_sprites = heroine_sprites ''char_001'',
       cfg_maxFavor = Some 1000, cfg_defaultFavor = Some 0\<rparr>,
      \<lparr>cfg_id = ''heroine_2'',
       cfg_name = [CHR 0xE8, CHR 0x8B, CHR 0x8F, CHR 0xE5, CHR 0xB0, CHR 0x8F, CHR 0xE6, CHR 0x99, CHR 0x9A],
       cfg_title = Some [CHR 0xE5, CHR 0x85, CHR 0x83, CHR 0xE6, CHR 0xB0, CHR 0x94, CHR 0xE5, CHR 0xAD,
                         CHR 0xA6, CHR 0xE5, CHR 0xA6, CHR 0xB9],
       cfg_sprites = heroine_sprites ''char_002'',
       cfg_maxFavor = Some 1000, cfg_defaultFavor = Some 0\<rparr>,
      \<lparr>cfg_id = ''heroine_3'',
       cfg_name = [CHR 0xE6, CHR 0xB2, CHR 0x88, CHR 0xE5, CHR 0xA2, CHR 0xA8, CHR 0xE5, CHR 0xAF, CHR 0x92],
       cfg_title = Some [CHR 0xE5, CHR 0x86, CHR 0xB0, CHR 0xE5, CHR 0xB1, CHR 0xB1, CHR 0xE6, CHR 0xA0,
                         CHR 0xA1, CHR 0xE8, CHR 0x8A, CHR 0xB1],
       cfg_sprites = heroine_sprites ''char_003'',
       cfg_maxFavor = Some 1000, cfg_defaultFavor = Some 0\<rparr>]"

definition initializeCharacters :: "CharacterConfig list \<Rightarrow> CharacterSystem \<Rightarrow> CharacterSystem" where
  "initializeCharacters config cs =
     foldl (\<lambda>s c. s\<lparr>cs_characters :=
               AList.update (cfg_id c)
                 \<lparr>char_id = cfg_id c, name = cfg_name c, title = cfg_title c,
                  sprites = cfg_sprites c,
                  favor = num_or (cfg_defaultFavor c) 0,
                  maxFavor = num_or (cfg_maxFavor c) 1000,
                  unlocked = False, endings = [], events = []\<rparr>
                 (cs_characters s)\<rparr>)
       cs config"

definition CharacterSystem_new :: CharacterSystem where
  "CharacterSystem_new = \<lparr>cs_characters = [], cs_emitted = []\<rparr>"

definition getCharacter :: "CharacterSystem \<Rightarrow> string \<Rightarrow> CharacterData option" where
  "getCharacter cs characterId = map_of (cs_characters cs) characterId"

definition emit_cs :: "CharacterSystem \<Rightarrow> CharacterEvent \<Rightarrow> CharacterSystem" where
  "emit_cs cs e = cs\<lparr>cs_emitted := cs_emitted cs @ [e]\<rparr>"

definition unlockCharacter :: "CharacterSystem \<Rightarrow> string \<Rightarrow> bool \<times> CharacterSystem" where
  "unlockCharacter cs characterId =
     (case map_of (cs_characters cs) characterId of
        None \<Rightarrow> (False, cs)
      | Some character \<Rightarrow>
          if unlocked character then (False, cs)
          else
            let character' = character\<lparr>unlocked := True\<rparr>;
                cs1 = cs\<lparr>cs_characters := AList.update characterId character' (cs_characters cs)\<rparr>
            in (True, emit_cs cs1 (CharacterUnlocked character')))"

text \<open>
  \<open>getFavorLevel\<close> compares the double \<open>favor / maxFavor\<close> with the decimal literals
  0.85, 0.70, ... Both sides are correctly rounded, and a quotient of two integers that
  is not equal to such a literal differs from it by at least \<open>1 / (100 * maxFavor)\<close>, far
  more than one unit in the last place for every \<open>maxFavor\<close> below \<open>10^13\<close>; so the
  comparison is the exact one on rationals, which is what the model computes. Division
  by zero gives \<open>NaN\<close> (every comparison false) for \<open>0 / 0\<close>, \<open>+Infinity\<close> for a positive
  and \<open>-Infinity\<close> for a negative numerator.
\<close>

definition favorLevelOf :: "int \<Rightarrow> int \<Rightarrow> int" where
  "favorLevelOf f m =
     (if m = 0 then (if 0 < f then 7 else 1)
      else
        let percent = (rat_of_int f / rat_of_int m) in
        if percent \<ge> 85 / 100 then 7
        else if percent \<ge> 70 / 100 then 6
        else if percent \<ge> 55 / 100 then 5
        else if percent \<ge> 40 / 100 then 4
        else if percent \<ge> 25 / 100 then 3
        else if percent \<ge> 10 / 100 then 2
        else 1)"

definition getFavorLevel :: "CharacterSystem \<Rightarrow> string \<Rightarrow> int" where
  "getFavorLevel cs characterId =
     (case map_of (cs_characters cs) characterId of
        None \<Rightarrow> 0
      | Some character \<Rightarrow> favorLevelOf (favor character) (maxFavor character))"

text \<open>The table \<open>names\<close> of \<open>getFavorLevelName\<close>, as UTF-8 bytes.\<close>

definition favorLevelNames :: "string list" where
  "favorLevelNames =
     [[CHR 0xE9, CHR 0x99, CHR 0x8C, CHR 0xE7, CHR 0x94, CHR 0x9F, CHR 0xE4, CHR 0xBA, CHR 0xBA],
      [CHR 0xE8, CHR 0xAE, CHR 0xA4, CHR 0xE8, CHR 0xAF, CHR 0x86],
      [CHR 0xE7, CHR 0x86, CHR 0x9F, CHR 0xE4, CHR 0xBA, CHR 0xBA],
      [CHR 0xE6, CHR 0x9C, CHR 0x8B, CHR 0xE5, CHR 0x8F, CHR 0x8B],
      [CHR 0xE5, CHR 0xA5, CHR 0xBD, CHR 0xE5, CHR 0x8F, CHR 0x8B],
      [CHR 0xE4, CHR 0xBA, CHR 0xB2, CHR 0xE5, CHR 0xAF, CHR 0x86],
      [CHR 0xE6, CHR 0x81, CHR 0x8B, CHR 0xE4, CHR 0xBA, CHR 0xBA],
      [CHR 0xE5, CHR 0x91, CHR 0xBD, CHR 0xE4, CHR 0xB8, CHR 0xAD, CHR 0xE6, CHR 0xB3, CHR 0xA8,
       CHR 0xE5, CHR 0xAE, CHR 0x9A]]"

definition getFavorLevelName :: "CharacterSystem \<Rightarrow> string \<Rightarrow> string" where
  "getFavorLevelName cs characterId =
     (let level = getFavorLevel cs characterId; i = level - 1 in
      if 0 \<le> i \<and> i < int (length favorLevelNames) then favorLevelNames ! nat i
      else favorLevelNames ! 0)"

text \<open>
  \<open>checkFavorLevel\<close> runs after \<open>changeFavor\<close> has stored the new favor; it reads the
  level twice from the same state, once as \<open>newLevel\<close> and once as \<open>oldLevel\<close>.
\<close>

definition checkFavorLevel :: "CharacterSystem \<Rightarrow> CharacterData \<Rightarrow> CharacterSystem" where
  "checkFavorLevel cs character =
     (let newLevel = getFavorLevel cs (char_id character);
          oldLevel = getFavorLevel cs (char_id character)
      in if newLevel \<noteq> oldLevel
         then emit_cs cs (FavorLevelUp (char_id character) (name character) newLevel
                            (getFavorLevelName cs (char_id character)))
         else cs)"

definition changeFavor :: "CharacterSystem \<Rightarrow> string \<Rightarrow> int \<Rightarrow> int \<times> CharacterSystem" where
  "changeFavor cs characterId delta =
     (case map_of (cs_characters cs) characterId of
        None \<Rightarrow> (0, cs)
      | Some character \<Rightarrow>
          let oldFavor = favor character;
              character' = character\<lparr>favor :=
                 max 0 (min (maxFavor character) (favor character + delta))\<rparr>;
              cs1 = cs\<lparr>cs_characters := AList.update characterId character' (cs_characters cs)\<rparr>;
              actualChange = favor character' - oldFavor
          in if actualChange \<noteq> 0
             then (actualChange,
                   checkFavorLevel
                     (emit_cs cs1 (FavorChanged characterId (name character') actualChange
                                     (favor character')))
                     character')
             else (actualChange, cs1))"

text \<open>A sequence of favor mutations, as \<open>selectChoice\<close> runs over \<open>choice.favorChange\<close>.\<close>

fun changeFavors :: "CharacterSystem \<Rightarrow> (string \<times> int) list \<Rightarrow> CharacterSystem" where
  "changeFavors cs [] = cs"
| "changeFavors cs ((charId, delta) # rest) = changeFavors (snd (changeFavor cs charId delta)) rest"

record CharacterSave =
  sv_favor :: int
  sv_unlocked :: bool
  sv_endings :: "string list"
  sv_events :: "string list"

definition exportData_cs :: "CharacterSystem \<Rightarrow> (string \<times> CharacterSave) list" where
  "exportData_cs cs =
     foldl (\<lambda>data (cid, c).
              AList.update cid
                \<lparr>sv_favor = favor c, sv_unlocked = unlocked c,
                 sv_endings = endings c, sv_events = events c\<rparr> data)
       [] (cs_characters cs)"

definition importData_cs :: "CharacterSystem \<Rightarrow> (string \<times> CharacterSave) list \<Rightarrow> CharacterSystem" where
  "importData_cs cs data =
     foldl (\<lambda>s (cid, charData).
              case map_of (cs_characters s) cid of
                None \<Rightarrow> s
              | Some character \<Rightarrow>
                  s\<lparr>cs_characters :=
                      AList.update cid
                        (character\<lparr>favor := sv_favor charData, unlocked := sv_unlocked charData,
                                   endings := sv_endings charData, events := sv_events charData\<rparr>)
                        (cs_characters s)\<rparr>)
       cs data"

definition favorLevelUps :: "CharacterEvent list \<Rightarrow> CharacterEvent list" where
  "favorLevelUps es = filter (\<lambda>e. case e of FavorLevelUp _ _ _ _ \<Rightarrow> True | _ \<Rightarrow> False) es"

definition heroine_at :: "int \<Rightarrow> CharacterSystem" where
  "heroine_at f = importData_cs (initializeCharacters characterConfig CharacterSystem_new)
     [(''heroine_1'', \<lparr>sv_favor = f, sv_unlocked = False, sv_endings = [], sv_events = []\<rparr>)]"

definition favorInvariant :: "CharacterSystem \<Rightarrow> bool" where
  "favorInvariant cs =
     list_all (\<lambda>(cid, c). 0 \<le> favor c \<and> favor c \<le> maxFavor c) (cs_characters cs)"

section \<open>FlagManager\<close>

text \<open>
  \<open>_flags\<close> and \<open>_definitions\<close> are JavaScript \<open>Map\<close>s, modelled as association lists in
  insertion order. The field \<open>description\<close> of a flag definition is display text that no
  operation reads; it is left out of the record.
\<close>

record FlagDefinition =
  def_key :: string
  defaultValue :: bool
  tags :: "string list"

datatype FlagEvent = FlagChanged string bool bool | FlagReset

record FlagManager =
  fm_flags :: "(string \<times> bool) list"
  fm_definitions :: "(string \<times> FlagDefinition) list"
  fm_emitted :: "FlagEvent list"

definition FLAG_DEFINITIONS :: "FlagDefinition list" where
  "FLAG_DEFINITIONS =
     [\<lparr>def_key = ''met_yuqing'', defaultValue = False, tags = [''story'', ''heroine_1'']\<rparr>,
      \<lparr>def_key = ''met_xiaowan'', defaultValue = False, tags = [''story'', ''heroine_2'']\<rparr>,
      \<lparr>def_key = ''met_mohan'', defaultValue = False, tags = [''story'', ''heroine_3'']\<rparr>,
      \<lparr>def_key = ''polite'', defaultValue = False, tags = [''choice'']\<rparr>,
      \<lparr>def_key = ''cold'', defaultValue = False, tags = [''choice'']\<rparr>,
      \<lparr>def_key = ''ask_about_mo'', defaultValue = False, tags = [''choice'']\<rparr>,
      \<lparr>def_key = ''event_date_1'', defaultValue = False, tags = [''event'']\<rparr>,
      \<lparr>def_key = ''event_basketball'', defaultValue = False, tags = [''event'']\<rparr>,
      \<lparr>def_key = ''event_library'', defaultValue = False, tags = [''event'']\<rparr>,
      \<lparr>def_key = ''event_festival'', defaultValue = False, tags = [''event'']\<rparr>,
      \<lparr>def_key = ''unlock_heroine_2'', defaultValue = False, tags = [''unlock'']\<rparr>,
      \<lparr>def_key = ''unlock_heroine_3'', defaultValue = False, tags = [''unlock'']\<rparr>,
      \<lparr>def_key = ''unlock_cg_1'', defaultValue = False, tags = [''unlock'', ''cg'']\<rparr>,
      \<lparr>def_key = ''unlock_ending_1'', defaultValue = False, tags = [''unlock'', ''ending'']\<rparr>,
      \<lparr>def_key = ''is_auto_save'', defaultValue = False, tags = [''system'']\<rparr>,
      \<lparr>def_key = ''skip_mode'', defaultValue = False, tags = [''system'']\<rparr>]"

text \<open>The constructor, run over a definition table.\<close>

definition FlagManager_new :: "FlagDefinition list \<Rightarrow> FlagManager" where
  "FlagManager_new defs =
     foldl (\<lambda>fm d. fm\<lparr>fm_definitions := AList.update (def_key d) d (fm_definitions fm),
                       fm_flags := AList.update (def_key d) (defaultValue d) (fm_flags fm)\<rparr>)
       \<lparr>fm_flags = [], fm_definitions = [], fm_emitted = []\<rparr> defs"

definition get_flag :: "FlagManager \<Rightarrow> string \<Rightarrow> bool" where
  "get_flag fm key = (case map_of (fm_flags fm) key of None \<Rightarrow> False | Some v \<Rightarrow> v)"

definition set_flag :: "FlagManager \<Rightarrow> string \<Rightarrow> bool \<Rightarrow> FlagManager" where
  "set_flag fm key v =
     (let oldValue = (case map_of (fm_flags fm) key of None \<Rightarrow> False | Some b \<Rightarrow> b) in
      if oldValue = v then fm
      else fm\<lparr>fm_flags := AList.update key v (fm_flags fm),
               fm_emitted := fm_emitted fm @ [FlagChanged key oldValue v]\<rparr>)"

definition exportData_fm :: "FlagManager \<Rightarrow> (string \<times> bool) list" where
  "exportData_fm fm =
     foldl (\<lambda>data (key, v).
              case map_of (fm_definitions fm) key of
                None \<Rightarrow> data
              | Some d \<Rightarrow> if v \<noteq> defaultValue d then AList.update key v data else data)
       [] (fm_flags fm)"

definition reset_fm :: "FlagManager \<Rightarrow> FlagManager" where
  "reset_fm fm =
     (let fm1 = foldl (\<lambda>s (key, d). s\<lparr>fm_flags := AList.update key (defaultValue d) (fm_flags s)\<rparr>)
                  fm (fm_definitions fm)
      in fm1\<lparr>fm_emitted := fm_emitted fm1 @ [FlagReset]\<rparr>)"

definition importData_fm :: "FlagManager \<Rightarrow> (string \<times> bool) list \<Rightarrow> FlagManager" where
  "importData_fm fm data = foldl (\<lambda>s (key, v). set_flag s key v) (reset_fm fm) data"

text \<open>A \<open>Map\<close> has each key once; the association lists of a store keep that.\<close>

definition wf_fm :: "FlagManager \<Rightarrow> bool" where
  "wf_fm fm = (distinct (map fst (fm_flags fm)) \<and> distinct (map fst (fm_definitions fm)))"

section \<open>GameStateMachine\<close>

datatype GameState =
    BOOT | TITLE | MAIN_MENU
  | PLAYING | DIALOG | CHOICE | EVENT | DATE
  | PAUSE | INVENTORY | CHARACTER | MAP
  | SETTINGS | SAVE_LOAD | GALLERY | ACHIEVEMENT
  | ENDING | CREDITS

datatype MenuState =
  MENU_MAIN | MENU_NEW_GAME | MENU_CONTINUE | MENU_LOAD | MENU_SETTINGS | MENU_GALLERY | MENU_EXIT

datatype DialogState = WAITING | TYPING | COMPLETE | AUTO | SKIP

text \<open>The string value of each enum member, as \<open>collectSaveData\<close> stores it.\<close>

fun GameState_value :: "GameState \<Rightarrow> string" where
  "GameState_value BOOT = ''boot''"
| "GameState_value TITLE = ''title''"
| "GameState_value MAIN_MENU = ''main_menu''"
| "GameState_value PLAYING = ''playing''"
| "GameState_value DIALOG = ''dialog''"
| "GameState_value CHOICE = ''choice''"
| "GameState_value EVENT = ''event''"
| "GameState_value DATE = ''date''"
| "GameState_value PAUSE = ''pause''"
| "GameState_value INVENTORY = ''inventory''"
| "GameState_value CHARACTER = ''character''"
| "GameState_value MAP = ''map''"
| "GameState_value SETTINGS = ''settings''"
| "GameState_value SAVE_LOAD = ''save_load''"
| "GameState_value GALLERY = ''gallery''"
| "GameState_value ACHIEVEMENT = ''achievement''"
| "GameState_value ENDING = ''ending''"
| "GameState_value CREDITS = ''credits''"

fun STATE_TRANSITIONS :: "GameState \<Rightarrow> GameState list" where
  "STATE_TRANSITIONS BOOT = [TITLE]"
| "STATE_TRANSITIONS TITLE = [MAIN_MENU]"
| "STATE_TRANSITIONS MAIN_MENU = [PLAYING, SAVE_LOAD, SETTINGS, GALLERY]"
| "STATE_TRANSITIONS PLAYING = [DIALOG, CHOICE, EVENT, DATE, PAUSE, INVENTORY, CHARACTER]"
| "STATE_TRANSITIONS DIALOG = [CHOICE, EVENT, PLAYING, ENDING]"
| "STATE_TRANSITIONS CHOICE = [DIALOG, EVENT, PLAYING]"
| "STATE_TRANSITIONS EVENT = [DIALOG, PLAYING, ENDING]"
| "STATE_TRANSITIONS DATE = [PLAYING, DIALOG]"
| "STATE_TRANSITIONS PAUSE = [PLAYING, SAVE_LOAD, SETTINGS]"
| "STATE_TRANSITIONS INVENTORY = [PLAYING]"
| "STATE_TRANSITIONS CHARACTER = [PLAYING]"
| "STATE_TRANSITIONS MAP = [PLAYING]"
| "STATE_TRANSITIONS SETTINGS = [MAIN_MENU, PAUSE]"
| "STATE_TRANSITIONS SAVE_LOAD = [MAIN_MENU, PLAYING]"
| "STATE_TRANSITIONS GALLERY = [MAIN_MENU, PAUSE]"
| "STATE_TRANSITIONS ACHIEVEMENT = [MAIN_MENU, PAUSE]"
| "STATE_TRANSITIONS ENDING = [CREDITS, TITLE, MAIN_MENU]"
| "STATE_TRANSITIONS CREDITS = [TITLE]"

datatype StateEvent =
    StateChanged GameState GameState "string option"
  | MenuStateChanged MenuState
  | DialogStateChanged DialogState

record GameStateMachine =
  currentState :: GameState
  previousState :: GameState
  menuState :: MenuState
  dialogState :: DialogState
  stateStack :: "GameState list"
  sm_emitted :: "StateEvent list"

definition GameStateMachine_new :: GameStateMachine where
  "GameStateMachine_new =
     \<lparr>currentState = BOOT, previousState = BOOT, menuState = MENU_MAIN,
      dialogState = WAITING, stateStack = [], sm_emitted = []\<rparr>"

definition canTransition :: "GameStateMachine \<Rightarrow> GameState \<Rightarrow> bool" where
  "canTransition m targetState = (targetState \<in> set (STATE_TRANSITIONS (currentState m)))"

definition pushStates :: "(GameState \<times> GameState) list" where
  "pushStates =
     [(MAIN_MENU, PLAYING), (PLAYING, DIALOG), (PLAYING, CHOICE), (PLAYING, PAUSE),
      (PLAYING, INVENTORY), (PLAYING, CHARACTER), (PAUSE, SAVE_LOAD), (PAUSE, SETTINGS)]"

definition shouldPushToStack :: "GameState \<Rightarrow> GameState \<Rightarrow> bool" where
  "shouldPushToStack from to = list_ex (\<lambda>(f, t). from = f \<and> to = t) pushStates"

definition changeState ::
  "GameStateMachine \<Rightarrow> GameState \<Rightarrow> string option \<Rightarrow> bool \<times> GameStateMachine" where
  "changeState m newState d =
     (if \<not> canTransition m newState then (False, m)
      else
        let oldState = currentState m;
            m1 = m\<lparr>previousState := oldState, currentState := newState\<rparr>;
            m2 = (if shouldPushToStack oldState newState
                  then m1\<lparr>stateStack := stateStack m1 @ [oldState]\<rparr> else m1)
        in (True, m2\<lparr>sm_emitted := sm_emitted m2 @ [StateChanged oldState newState d]\<rparr>))"

definition goBack :: "GameStateMachine \<Rightarrow> string option \<Rightarrow> bool \<times> GameStateMachine" where
  "goBack m d =
     (if stateStack m = [] then (False, m)
      else changeState (m\<lparr>stateStack := butlast (stateStack m)\<rparr>) (last (stateStack m)) d)"

section \<open>Story content and StoryManager state\<close>

text \<open>
  \<open>Chapter.nodes\<close> is a \<open>Record<string, StoryNode>\<close>, a JavaScript object. It is modelled
  as an association list whose order is the object's own-property order, the order in
  which \<open>Object.keys\<close> lists the keys; \<open>nodes[id]\<close> is \<open>map_of\<close>. The field \<open>conditions\<close>
  of a node is read by no operation, and \<open>conditions\<close> of a choice only by
  \<open>DialogSystem.checkConditions\<close>, which returns \<open>true\<close> for every list; both are left out.
  The \<open>value\<close> of an effect has type \<open>any\<close>: a boolean, a number or a string.
\<close>

datatype NodeType =
  NODE_DIALOG | NODE_NARRATION | NODE_CHOICE | NODE_BRANCH | NODE_EVENT | NODE_END

datatype EffectValue = BoolValue bool | NumValue int | TextValue string

record Effect =
  eff_type :: string
  eff_target :: string
  eff_value :: EffectValue

record CharacterDisplay =
  disp_id :: string
  disp_pose :: string
  disp_position :: string
  disp_fade :: "string option"

record ChoiceData =
  choice_id :: string
  choice_text :: string
  choice_next :: string
  choice_effects :: "Effect list option"
  favorChange :: "(string \<times> int) list option"

record StoryNode =
  node_id :: string
  node_type :: NodeType
  speaker :: "string option"
  content :: string
  background :: "string option"
  character :: "CharacterDisplay option"
  node_choices :: "ChoiceData list option"
  node_next :: "string option"
  node_effects :: "Effect list option"

record UnlockCondition =
  cond_type :: string
  cond_value :: string

record Chapter =
  chapter_id :: string
  chapter_title :: string
  chapter_description :: string
  unlockCondition :: "UnlockCondition option"
  bgm :: "string option"
  nodes :: "(string \<times> StoryNode) list"

datatype StoryEvent =
    ChapterLocked Chapter
  | ChapterStarted Chapter
  | NodePlayed StoryNode
  | StoryEnded

record StoryManager =
  config :: "Chapter list"
  currentChapter :: "Chapter option"
  currentNodeId :: string
  localFlags :: "(string \<times> EffectValue) list"
  visitedNodes :: "string list"
  choiceHistory :: "string list"
  st_emitted :: "StoryEvent list"

definition StoryManager_new :: "Chapter list \<Rightarrow> StoryManager" where
  "StoryManager_new chapters =
     \<lparr>config = chapters, currentChapter = None, currentNodeId = [], localFlags = [],
      visitedNodes = [], choiceHistory = [], st_emitted = []\<rparr>"

section \<open>DialogSystem state\<close>

text \<open>
  The DialogSystem after \<open>init\<close> has given it its UI nodes. Of the UI it drives, the
  model keeps the \<open>active\<close> switches of the dialog box, the speaker label and the choice
  panel; the label texts are left out. The typewriter timer started by \<open>startTyping\<close>
  runs later, as a step of its own, and is not part of the call that starts it. The
  only listeners ever registered on the DialogSystem are the two that
  \<open>StoryManager.playNode\<close> installs for \<open>requestNode\<close> and \<open>nodeSelected\<close> (after
  removing every earlier one); the state records whether they are installed.
\<close>

datatype DialogEvent =
    DialogFavorChanged string EffectValue
  | FlagSet string EffectValue
  | ContentUnlocked string
  | BackgroundChanged string
  | CharacterShown CharacterDisplay
  | AllCharactersHidden
  | ChoicesShown "ChoiceData list"
  | EndingTriggered
  | RequestNode string
  | NodeSelected string

record DialogSystem =
  ds_currentNode :: "StoryNode option"
  isTyping :: bool
  currentText :: string
  displayedChars :: int
  dialogBoxActive :: bool
  speakerLabelActive :: bool
  choicePanelActive :: bool
  requestNodeListener :: bool
  nodeSelectedListener :: bool
  ds_emitted :: "DialogEvent list"

definition DialogSystem_new :: DialogSystem where
  "DialogSystem_new =
     \<lparr>ds_currentNode = None, isTyping = False, currentText = [], displayedChars = 0,
      dialogBoxActive = False, speakerLabelActive = False, choicePanelActive = False,
      requestNodeListener = False, nodeSelectedListener = False, ds_emitted = []\<rparr>"

section \<open>SaveLoadSystem data\<close>

record PlayerData =
  playTime :: int
  choices :: "string list"
  player_name :: "string option"
  attributes :: "(string \<times> int) list option"

record SaveData =
  slot :: int
  version :: string
  saveTime :: int
  save_chapter :: string
  save_node :: string
  characters :: "(string \<times> CharacterSave) list"
  flags :: "(string \<times> bool) list"
  player :: PlayerData
  extra :: "(string \<times> string) list"

text \<open>The fields of a \<open>Partial<SaveData>\<close> that \<open>collectSaveData\<close> reads.\<close>

record SaveDataPartial =
  p_chapter :: "string option"
  p_node :: "string option"
  p_player :: "PlayerData option"
  p_extra :: "(string \<times> string) list option"

datatype SaveEvent =
    SaveSuccess int SaveData
  | SaveFailed int
  | LoadSuccess int SaveData
  | SaveDeleted int
  | AutoSaveSuccess int
  | DataApplied SaveData
  | AllSavesCleared

record SaveLoadSystem =
  currentSlot :: int
  autoSaveEnabled :: bool
  autoSaveInterval :: int
  lastAutoSaveTime :: int
  autoSaveNode :: string
  isSaving :: bool
  playStartTime :: int
  sl_emitted :: "SaveEvent list"

definition SaveLoadSystem_new :: SaveLoadSystem where
  "SaveLoadSystem_new =
     \<lparr>currentSlot = - 1, autoSaveEnabled = True, autoSaveInterval = 5 * 60 * 1000,
      lastAutoSaveTime = 0, autoSaveNode = [], isSaving = False, playStartTime = 0,
      sl_emitted = []\<rparr>"

definition MAX_SLOTS :: int where
  "MAX_SLOTS = 6"

definition GAME_VERSION :: string where
  "GAME_VERSION = ''1.0.0''"

section \<open>The singletons together\<close>

text \<open>
  The systems are global singletons that read and write one another; the program state
  is the record of all of them together with \<open>localStorage\<close>. A stored value is the JSON
  text of a \<open>SaveData\<close>; writing and reading it back gives a copy of the value, so the
  store holds the value itself.
\<close>

record Game =
  characterSystem :: CharacterSystem
  flagManager :: FlagManager
  stateMachine :: GameStateMachine
  saveLoad :: SaveLoadSystem
  story :: StoryManager
  dialogSystem :: DialogSystem
  localStorage :: "(string \<times> SaveData) list"

definition Game_new :: "Chapter list \<Rightarrow> Game" where
  "Game_new chapters =
     \<lparr>characterSystem = initializeCharacters characterConfig CharacterSystem_new,
      flagManager = FlagManager_new FLAG_DEFINITIONS,
      stateMachine = GameStateMachine_new,
      saveLoad = SaveLoadSystem_new,
      story = StoryManager_new chapters,
      dialogSystem = DialogSystem_new,
      localStorage = []\<rparr>"

section \<open>SaveLoadSystem operations\<close>

text \<open>\<open>x || d\<close> on an optional string: \<open>undefined\<close> and the empty string are falsy.\<close>

definition str_or :: "string option \<Rightarrow> string \<Rightarrow> string" where
  "str_or x d = (case x of None \<Rightarrow> d | Some v \<Rightarrow> (if v = [] then d else v))"

text \<open>\<open>Date.now()\<close> is a parameter \<open>now\<close> of every operation that reads the clock.\<close>

definition calculatePlayTime :: "SaveLoadSystem \<Rightarrow> int \<Rightarrow> int" where
  "calculatePlayTime sl now =
     (if playStartTime sl \<le> 0 then 0 else (now - playStartTime sl) div 1000)"

definition collectFlags :: "Game \<Rightarrow> (string \<times> bool) list" where
  "collectFlags g = []"

definition DEFAULT_PLAYER_NAME :: string where
  "DEFAULT_PLAYER_NAME = [CHR 0xE6, CHR 0x9D, CHR 0x8E, CHR 0xE6, CHR 0x98, CHR 0x8E]"

definition DEFAULT_ATTRIBUTES :: "(string \<times> int) list" where
  "DEFAULT_ATTRIBUTES = [(''charm'', 50), (''intellect'', 50), (''luck'', 50), (''athletics'', 50)]"

definition collectSaveData :: "Game \<Rightarrow> int \<Rightarrow> SaveDataPartial option \<Rightarrow> int \<Rightarrow> SaveData" where
  "collectSaveData g sl_slot extraData now =
     (let p = Option.bind extraData p_player in
      \<lparr>slot = sl_slot,
       version = GAME_VERSION,
       saveTime = now,
       save_chapter = str_or (Option.bind extraData p_chapter)
                   (GameState_value (currentState (stateMachine g))),
       save_node = str_or (Option.bind extraData p_node) (autoSaveNode (saveLoad g)),
       characters = exportData_cs (characterSystem g),
       flags = collectFlags g,
       player =
         \<lparr>playTime = num_or (map_option playTime p) 0 + calculatePlayTime (saveLoad g) now,
          choices = (case p of None \<Rightarrow> [] | Some q \<Rightarrow> choices q),
          player_name = Some (str_or (Option.bind p player_name) DEFAULT_PLAYER_NAME),
          attributes = Some (case Option.bind p attributes of
                               None \<Rightarrow> DEFAULT_ATTRIBUTES | Some a \<Rightarrow> a)\<rparr>,
       extra = (case Option.bind extraData p_extra of None \<Rightarrow> [] | Some e \<Rightarrow> e)\<rparr>)"

text \<open>
  The storage key \<open>save_<slot>\<close>. \<open>save\<close>, \<open>load\<close> and \<open>deleteSave\<close> build it only after
  checking \<open>0 \<le> slot < MAX_SLOTS\<close>, so the slot is a single decimal digit.
\<close>

definition slot_key :: "int \<Rightarrow> string" where
  "slot_key s = ''save_'' @ [''0123456789'' ! nat s]"

definition emit_sl :: "Game \<Rightarrow> SaveEvent \<Rightarrow> Game" where
  "emit_sl g e = g\<lparr>saveLoad := (saveLoad g)\<lparr>sl_emitted := sl_emitted (saveLoad g) @ [e]\<rparr>\<rparr>"

text \<open>
  \<open>save\<close> is declared \<open>async\<close> but awaits nothing, so a call runs to its end in one step.
  \<open>setStorage\<close> catches its own errors; the model's store accepts every write, and then
  nothing in the \<open>try\<close> block throws, so the \<open>saveFailed\<close> branch is not taken.
\<close>

definition save :: "Game \<Rightarrow> int \<Rightarrow> SaveDataPartial option \<Rightarrow> int \<Rightarrow> bool \<times> Game" where
  "save g sl_slot d now =
     (if isSaving (saveLoad g) then (False, g)
      else if sl_slot < 0 \<or> sl_slot \<ge> MAX_SLOTS then (False, g)
      else
        let g1 = g\<lparr>saveLoad := (saveLoad g)\<lparr>isSaving := True\<rparr>\<rparr>;
            saveData = collectSaveData g1 sl_slot d now;
            g2 = g1\<lparr>localStorage := AList.update (slot_key sl_slot) saveData (localStorage g1)\<rparr>;
            g3 = g2\<lparr>saveLoad := (saveLoad g2)\<lparr>currentSlot := sl_slot\<rparr>\<rparr>;
            g4 = emit_sl g3 (SaveSuccess sl_slot saveData)
        in (True, g4\<lparr>saveLoad := (saveLoad g4)\<lparr>isSaving := False\<rparr>\<rparr>))"

definition load :: "Game \<Rightarrow> int \<Rightarrow> SaveData option \<times> Game" where
  "load g sl_slot =
     (if sl_slot < 0 \<or> sl_slot \<ge> MAX_SLOTS then (None, g)
      else case map_of (localStorage g) (slot_key sl_slot) of
             None \<Rightarrow> (None, g)
           | Some d \<Rightarrow>
               (Some d,
                emit_sl (g\<lparr>saveLoad := (saveLoad g)\<lparr>currentSlot := sl_slot\<rparr>\<rparr>)
                  (LoadSuccess sl_slot d)))"

definition applySaveData :: "Game \<Rightarrow> SaveData \<Rightarrow> int \<Rightarrow> bool \<times> Game" where
  "applySaveData g d now =
     (let g1 = g\<lparr>characterSystem := importData_cs (characterSystem g) (characters d)\<rparr>;
          g2 = g1\<lparr>saveLoad := (saveLoad g1)\<lparr>playStartTime := now - playTime (player d) * 1000\<rparr>\<rparr>
      in (True, emit_sl g2 (DataApplied d)))"

text \<open>
  \<open>GameManager.applySaveData\<close>, the caller's own restore used by \<open>continueGame\<close> and
  \<open>loadGame\<close>; inventory and achievements are outside this model. An object, also an
  empty one, is truthy, so both imports run.
\<close>

definition applySaveData_GameManager :: "Game \<Rightarrow> SaveData \<Rightarrow> Game" where
  "applySaveData_GameManager g d =
     (let g1 = g\<lparr>characterSystem := importData_cs (characterSystem g) (characters d)\<rparr>
      in g1\<lparr>flagManager := importData_fm (flagManager g1) (flags d)\<rparr>)"

section \<open>DialogSystem operations\<close>

definition emit_ds :: "Game \<Rightarrow> DialogEvent \<Rightarrow> Game" where
  "emit_ds g e = g\<lparr>dialogSystem := (dialogSystem g)\<lparr>ds_emitted := ds_emitted (dialogSystem g) @ [e]\<rparr>\<rparr>"

text \<open>
  \<open>DialogSystem.applyEffects\<close> only announces each effect on the DialogSystem's own
  emitter; nothing listens there, so no other system changes.
\<close>

definition applyEffects_ds :: "Game \<Rightarrow> Effect list \<Rightarrow> Game" where
  "applyEffects_ds g effects =
     foldl (\<lambda>h e.
              if eff_type e = ''favor'' then emit_ds h (DialogFavorChanged (eff_target e) (eff_value e))
              else if eff_type e = ''flag'' then emit_ds h (FlagSet (eff_target e) (eff_value e))
              else if eff_type e = ''unlock'' then emit_ds h (ContentUnlocked (eff_target e))
              else h)
       g effects"

definition setDialogState :: "GameStateMachine \<Rightarrow> DialogState \<Rightarrow> GameStateMachine" where
  "setDialogState m st = m\<lparr>dialogState := st, sm_emitted := sm_emitted m @ [DialogStateChanged st]\<rparr>"

definition playEnding :: "Game \<Rightarrow> Game" where
  "playEnding g =
     (let g1 = g\<lparr>stateMachine := snd (changeState (stateMachine g) ENDING None)\<rparr>;
          g2 = g1\<lparr>dialogSystem := (dialogSystem g1)\<lparr>dialogBoxActive := False,
                                                    choicePanelActive := False\<rparr>\<rparr>
      in emit_ds g2 EndingTriggered)"

definition playDialog :: "Game \<Rightarrow> StoryNode \<Rightarrow> Game" where
  "playDialog g nd =
     (let m1 = snd (changeState (stateMachine g) DIALOG None);
          g1 = g\<lparr>stateMachine := setDialogState m1 TYPING\<rparr>
      in g1\<lparr>dialogSystem := (dialogSystem g1)
              \<lparr>speakerLabelActive := (case speaker nd of None \<Rightarrow> False | Some sp \<Rightarrow> sp \<noteq> []),
               currentText := content nd,
               displayedChars := 0,
               isTyping := True,
               dialogBoxActive := True\<rparr>\<rparr>)"

definition playChoice :: "Game \<Rightarrow> StoryNode \<Rightarrow> Game" where
  "playChoice g nd =
     (let g1 = g\<lparr>stateMachine := snd (changeState (stateMachine g) CHOICE None)\<rparr>;
          g2 = g1\<lparr>dialogSystem := (dialogSystem g1)\<lparr>isTyping := False\<rparr>\<rparr>;
          availableChoices = (case node_choices nd of None \<Rightarrow> [] | Some cs \<Rightarrow> filter (\<lambda>c. True) cs);
          g3 = g2\<lparr>dialogSystem := (dialogSystem g2)\<lparr>choicePanelActive := True\<rparr>\<rparr>
      in emit_ds g3 (ChoicesShown availableChoices))"

text \<open>
  \<open>emit\<close> calls its listeners at once, so \<open>emit('requestNode', id)\<close> runs
  \<open>StoryManager.playNode(id)\<close> before \<open>next\<close> returns. That listener is the parameter
  \<open>k\<close>. The result \<open>None\<close> says that the call does not return: the chain of calls it
  starts does not come to an end.
\<close>

definition DialogSystem_next ::
  "(Game \<Rightarrow> string \<Rightarrow> (bool \<times> Game) option) \<Rightarrow> Game \<Rightarrow> Game option" where
  "DialogSystem_next k g =
     (if isTyping (dialogSystem g)
      then Some (g\<lparr>dialogSystem := (dialogSystem g)
                     \<lparr>isTyping := False,
                      displayedChars := int (length (currentText (dialogSystem g)))\<rparr>\<rparr>)
      else case Option.bind (ds_currentNode (dialogSystem g)) node_next of
             None \<Rightarrow> Some (playEnding g)
           | Some n \<Rightarrow>
               if n = [] then Some (playEnding g)
               else
                 let g1 = emit_ds g (RequestNode n) in
                 if requestNodeListener (dialogSystem g1)
                 then map_option snd (k g1 n)
                 else Some g1)"

definition DialogSystem_playNode ::
  "(Game \<Rightarrow> string \<Rightarrow> (bool \<times> Game) option) \<Rightarrow> Game \<Rightarrow> StoryNode \<Rightarrow> Game option" where
  "DialogSystem_playNode k g nd =
     (let g1 = g\<lparr>dialogSystem := (dialogSystem g)\<lparr>ds_currentNode := Some nd\<rparr>\<rparr>;
          g2 = (case node_effects nd of None \<Rightarrow> g1 | Some effs \<Rightarrow> applyEffects_ds g1 effs);
          g3 = (case background nd of
                  None \<Rightarrow> g2
                | Some bg \<Rightarrow> if bg \<noteq> [] then emit_ds g2 (BackgroundChanged bg) else g2);
          g4 = (case character nd of
                  None \<Rightarrow> emit_ds g3 AllCharactersHidden
                | Some d \<Rightarrow> emit_ds g3 (CharacterShown d))
      in (case node_type nd of
            NODE_DIALOG \<Rightarrow> Some (playDialog g4 nd)
          | NODE_NARRATION \<Rightarrow> Some (playDialog g4 nd)
          | NODE_CHOICE \<Rightarrow> Some (playChoice g4 nd)
          | NODE_END \<Rightarrow> Some (playEnding g4)
          | NODE_BRANCH \<Rightarrow> DialogSystem_next k g4
          | NODE_EVENT \<Rightarrow> DialogSystem_next k g4))"

section \<open>StoryManager operations\<close>

definition emit_st :: "Game \<Rightarrow> StoryEvent \<Rightarrow> Game" where
  "emit_st g e = g\<lparr>story := (story g)\<lparr>st_emitted := st_emitted (story g) @ [e]\<rparr>\<rparr>"

definition getLocalFlag :: "StoryManager \<Rightarrow> string \<Rightarrow> EffectValue" where
  "getLocalFlag st flag =
     (case map_of (localFlags st) flag of None \<Rightarrow> BoolValue False | Some v \<Rightarrow> v)"


text \<open>
  \<open>checkCondition\<close>: the case \<open>'flag'\<close> reads \<open>condition.target\<close>, a field the condition
  of a chapter does not have, so it looks up \<open>undefined\<close>, which is no key of the map of
  strings, and the result is \<open>false\<close>.
\<close>

definition checkCondition :: "StoryManager \<Rightarrow> UnlockCondition \<Rightarrow> bool" where
  "checkCondition st c =
     (if cond_type c = ''chapter'' then visitedNodes st \<noteq> []
      else if cond_type c = ''flag'' then False
      else True)"

text \<open>
  \<open>playNode\<close> hands the node to \<open>DialogSystem.playNode\<close>, which for a branch or event
  node calls \<open>next\<close> and through \<open>requestNode\<close> comes back into \<open>playNode\<close> before the
  first call has ended. A cycle of such nodes never ends, so the function takes fuel,
  the number of nested calls of \<open>playNode\<close> it may use; \<open>None\<close> says that the fuel did not
  suffice. The \<open>async\<close> functions of the StoryManager await only one another, so each
  operation is one step that runs to its end.
\<close>

primrec playNode :: "nat \<Rightarrow> Game \<Rightarrow> string \<Rightarrow> (bool \<times> Game) option" where
  "playNode 0 g nodeId = None"
| "playNode (Suc fuel) g nodeId =
     (case currentChapter (story g) of
        None \<Rightarrow> Some (False, g)
      | Some ch \<Rightarrow>
          (case map_of (nodes ch) nodeId of
             None \<Rightarrow> Some (False, g)
           | Some nd \<Rightarrow>
               let st = story g;
                   g1 = g\<lparr>story := st\<lparr>currentNodeId := nodeId,
                              visitedNodes := (if nodeId \<in> set (visitedNodes st) then visitedNodes st
                                               else visitedNodes st @ [nodeId])\<rparr>\<rparr>;
                   g2 = g1\<lparr>dialogSystem := (dialogSystem g1)\<lparr>requestNodeListener := True,
                                                             nodeSelectedListener := True\<rparr>\<rparr>
               in (case DialogSystem_playNode (playNode fuel) g2 nd of
                     None \<Rightarrow> None
                   | Some g3 \<Rightarrow> Some (True, emit_st g3 (NodePlayed nd)))))"

definition playChapter :: "nat \<Rightarrow> Game \<Rightarrow> string \<Rightarrow> (bool \<times> Game) option" where
  "playChapter fuel g chapterId =
     (case find (\<lambda>c. chapter_id c = chapterId) (config (story g)) of
        None \<Rightarrow> Some (False, g)
      | Some ch \<Rightarrow>
          if (case unlockCondition ch of None \<Rightarrow> False
              | Some c \<Rightarrow> \<not> checkCondition (story g) c)
          then Some (False, emit_st g (ChapterLocked ch))
          else
            let g1 = g\<lparr>story := (story g)\<lparr>currentChapter := Some ch\<rparr>\<rparr>;
                r = (case map fst (nodes ch) of
                       [] \<Rightarrow> Some g1
                     | firstNodeId # _ \<Rightarrow>
                         if firstNodeId \<noteq> [] then map_option snd (playNode fuel g1 firstNodeId)
                         else Some g1)
            in (case r of
                  None \<Rightarrow> None
                | Some g2 \<Rightarrow> Some (True, emit_st g2 (ChapterStarted ch))))"

text \<open>\<open>Array.findIndex\<close>: the index of the first element that satisfies \<open>P\<close>, or \<open>-1\<close>.\<close>

fun findIndex :: "('a \<Rightarrow> bool) \<Rightarrow> 'a list \<Rightarrow> int" where
  "findIndex P [] = - 1"
| "findIndex P (x # xs) =
     (if P x then 0 else (let i = findIndex P xs in if i < 0 then - 1 else i + 1))"

definition endChapter :: "nat \<Rightarrow> Game \<Rightarrow> (bool \<times> Game) option" where
  "endChapter fuel g =
     (let currentIndex =
            findIndex (\<lambda>c. Some (chapter_id c) = map_option chapter_id (currentChapter (story g)))
              (config (story g))
      in if currentIndex < int (length (config (story g))) - 1
         then playChapter fuel g (chapter_id (config (story g) ! nat (currentIndex + 1)))
         else
           let g1 = g\<lparr>stateMachine := snd (changeState (stateMachine g) ENDING None)\<rparr>
           in Some (True, emit_st g1 StoryEnded))"

definition next_node :: "nat \<Rightarrow> Game \<Rightarrow> (bool \<times> Game) option" where
  "next_node fuel g =
     (case currentChapter (story g) of
        None \<Rightarrow> Some (False, g)
      | Some ch \<Rightarrow>
          (case map_of (nodes ch) (currentNodeId (story g)) of
             None \<Rightarrow> endChapter fuel g
           | Some currentNode \<Rightarrow>
               (case node_next currentNode of
                  None \<Rightarrow> endChapter fuel g
                | Some n \<Rightarrow> if n = [] then endChapter fuel g else playNode fuel g n)))"



section \<open>Shipped story data and states used in the examples\<close>

text \<open>The chapter written in \<open>loadStoryConfig\<close>; its Chinese texts are given as UTF-8 bytes.\<close>

definition ch00_start :: StoryNode where
  "ch00_start =
     \<lparr>node_id = ''ch00_start'', node_type = NODE_NARRATION, speaker = None,
      content = [CHR 0xE4, CHR 0xB9, CHR 0x9D, CHR 0xE6, CHR 0x9C, CHR 0x88, CHR 0xE7, CHR 0x9A,
                 CHR 0x84, CHR 0xE9, CHR 0x98, CHR 0xB3, CHR 0xE5, CHR 0x85, CHR 0x89, CHR 0xE6,
                 CHR 0xB4, CHR 0x92, CHR 0xE5, CHR 0x9C, CHR 0xA8, CHR 0xE5, CHR 0x9C, CHR 0xA3,
                 CHR 0xE6, CHR 0xA8, CHR 0xB1, CHR 0xE5, CHR 0xAD, CHR 0xA6, CHR 0xE9, CHR 0x99,
                 CHR 0xA2, CHR 0xE7, CHR 0x9A, CHR 0x84, CHR 0xE6, CHR 0xA0, CHR 0xA1, CHR 0xE9,
                 CHR 0x97, CHR 0xA8, CHR 0xE4, CHR 0xB8, CHR 0x8A, CHR 0xEF, CHR 0xBC, CHR 0x8C,
                 CHR 0xE6, CHR 0x88, CHR 0x91, CHR 0xE7, CHR 0xAB, CHR 0x99, CHR 0xE5, CHR 0x9C,
                 CHR 0xA8, CHR 0xE8, CHR 0xBF, CHR 0x99, CHR 0xE9, CHR 0x87, CHR 0x8C, CHR 0xEF,
                 CHR 0xBC, CHR 0x8C, CHR 0xE5, CHR 0xBF, CHR 0x83, CHR 0xE8, CHR 0xB7, CHR 0xB3,
                 CHR 0xE5, CHR 0x8A, CHR 0xA0, CHR 0xE9, CHR 0x80, CHR 0x9F, CHR 0x2E, CHR 0x2E,
                 CHR 0x2E],
      background = Some ''bg_school_gate'', character = None, node_choices = None,
      node_next = Some ''ch00_01'', node_effects = None\<rparr>"

definition ch00_01 :: StoryNode where
  "ch00_01 =
     \<lparr>node_id = ''ch00_01'', node_type = NODE_DIALOG, speaker = Some ''player'',
      content = [CHR 0xE8, CHR 0xBF, CHR 0x99, CHR 0xE5, CHR 0xB0, CHR 0xB1, CHR 0xE6, CHR 0x98,
                 CHR 0xAF, CHR 0xE5, CHR 0x9C, CHR 0xA3, CHR 0xE6, CHR 0xA8, CHR 0xB1, CHR 0xE5,
                 CHR 0xAD, CHR 0xA6, CHR 0xE9, CHR 0x99, CHR 0xA2, CHR 0xE5, CHR 0x90, CHR 0x97,
                 CHR 0x2E, CHR 0x2E, CHR 0x2E, CHR 0xE7, CHR 0x9C, CHR 0x9F, CHR 0xE5, CHR 0xA4,
                 CHR 0xA7, CHR 0xE5, CHR 0x95, CHR 0x8A, CHR 0x2E, CHR 0x2E, CHR 0x2E],
      background = None, character = None, node_choices = None,
      node_next = Some ''ch00_02'', node_effects = None\<rparr>"

definition ch00 :: Chapter where
  "ch00 =
     \<lparr>chapter_id = ''ch00'',
      chapter_title = [CHR 0xE5, CHR 0xBA, CHR 0x8F, CHR 0xE7, CHR 0xAB, CHR 0xA0, CHR 0x20, CHR 0x2D,
                 CHR 0x20, CHR 0xE5, CHR 0x85, CHR 0xA5, CHR 0xE5, CHR 0xAD, CHR 0xA6, CHR 0xE7,
                 CHR 0xAC, CHR 0xAC, CHR 0xE4, CHR 0xB8, CHR 0x80, CHR 0xE5, CHR 0xA4, CHR 0xA9],
      chapter_description = [CHR 0xE6, CHR 0x95, CHR 0x85, CHR 0xE4, CHR 0xBA, CHR 0x8B, CHR 0xE4, CHR 0xBB,
                 CHR 0x8E, CHR 0xE4, CHR 0xB8, CHR 0xBB, CHR 0xE8, CHR 0xA7, CHR 0x92, CHR 0xE5,
                 CHR 0x85, CHR 0xA5, CHR 0xE5, CHR 0xAD, CHR 0xA6, CHR 0xE5, CHR 0x9C, CHR 0xA3,
                 CHR 0xE6, CHR 0xA8, CHR 0xB1, CHR 0xE5, CHR 0xAD, CHR 0xA6, CHR 0xE9, CHR 0x99,
                 CHR 0xA2, CHR 0xE5, CHR 0xBC, CHR 0x80, CHR 0xE5, CHR 0xA7, CHR 0x8B, CHR 0x2E,
                 CHR 0x2E, CHR 0x2E],
      unlockCondition = None, bgm = Some ''bgm_chapter_0'',
      nodes = [(''ch00_start'', ch00_start), (''ch00_01'', ch00_01)]\<rparr>"

definition storyConfig :: "Chapter list" where
  "storyConfig = [ch00]"


text \<open>The state machine after start-up: boot, title, main menu, playing.\<close>

definition machine_playing :: GameStateMachine where
  "machine_playing =
     (let m1 = snd (changeState GameStateMachine_new TITLE None);
          m2 = snd (changeState m1 MAIN_MENU None)
      in snd (changeState m2 PLAYING None))"

text \<open>
  A new game in mode \<open>playing\<close> with the chapters \<open>chapters\<close>, before any chapter is
  started.
\<close>

definition game_started :: "Chapter list \<Rightarrow> Game" where
  "game_started chapters = (Game_new chapters)\<lparr>stateMachine := machine_playing\<rparr>"

text \<open>The state after an operation that returns; the state before it when it does not.\<close>

definition state_after :: "Game \<Rightarrow> (bool \<times> Game) option \<Rightarrow> Game" where
  "state_after g r = (case r of None \<Rightarrow> g | Some (b, h) \<Rightarrow> h)"

text \<open>
  A game in progress, reached from start-up by the program's own operations: the mode
  goes boot, title, main menu, playing; chapter \<open>ch00\<close> is started, which presents its
  first node and puts the mode to \<open>dialog\<close>; the flag \<open>polite\<close> is set; the first heroine
  gains 120 favor.
\<close>

definition game_in_progress :: Game where
  "game_in_progress =
     (let g0 = game_started storyConfig;
          g1 = state_after g0 (playChapter 1 g0 ''ch00'');
          g2 = g1\<lparr>flagManager := set_flag (flagManager g1) ''polite'' True\<rparr>
      in g2\<lparr>characterSystem := snd (changeFavor (characterSystem g2) ''heroine_1'' 120)\<rparr>)"

text \<open>Play goes on after a snapshot: the flag is cleared again and more favor is gained.\<close>

definition game_later :: Game where
  "game_later =
     (let g1 = game_in_progress\<lparr>flagManager := set_flag (flagManager game_in_progress) ''polite'' False\<rparr>;
          g2 = state_after g1 (next_node 1 g1)
      in g2\<lparr>characterSystem := snd (changeFavor (characterSystem g2) ''heroine_1'' 200)\<rparr>)"

text \<open>The first heroine of the shipped roster, locked, with favor \<open>f\<close>.\<close>

definition heroine_1_data :: "int \<Rightarrow> CharacterData" where
  "heroine_1_data f =
     \<lparr>char_id = ''heroine_1'', name = cfg_name (hd characterConfig),
      title = cfg_title (hd characterConfig),
      sprites = heroine_sprites ''char_001'', favor = f, maxFavor = 1000, unlocked = False,
      endings = [], events = []\<rparr>"

text \<open>The declaration of the flag \<open>polite\<close> in \<open>FLAG_DEFINITIONS\<close>.\<close>

definition polite_def :: FlagDefinition where
  "polite_def = \<lparr>def_key = ''polite'', defaultValue = False, tags = [''choice'']\<rparr>"

text \<open>The game in progress at a moment when a save is under way.\<close>

definition game_saving :: Game where
  "game_saving = game_in_progress\<lparr>saveLoad := (saveLoad game_in_progress)\<lparr>isSaving := True\<rparr>\<rparr>"












section \<open>Properties of the CharacterSystem\<close>

lemma checkFavorLevel_same: "checkFavorLevel cs c = cs"
  by (simp add: checkFavorLevel_def Let_def)

lemma changeFavor_characters:
  "map_of (cs_characters cs) c = Some ch \<Longrightarrow>
   cs_characters (snd (changeFavor cs c d)) =
     AList.update c (ch\<lparr>favor := max 0 (min (maxFavor ch) (favor ch + d))\<rparr>) (cs_characters cs)"
  by (simp add: changeFavor_def Let_def checkFavorLevel_same emit_cs_def)

lemma changeFavor_emitted:
  "map_of (cs_characters cs) c = Some ch \<Longrightarrow>
   cs_emitted (snd (changeFavor cs c d)) =
     cs_emitted cs @
       (if max 0 (min (maxFavor ch) (favor ch + d)) = favor ch then []
        else [FavorChanged c (name ch) (max 0 (min (maxFavor ch) (favor ch + d)) - favor ch)
                (max 0 (min (maxFavor ch) (favor ch + d)))])"
  by (simp add: changeFavor_def Let_def checkFavorLevel_same emit_cs_def)

lemma changeFavor_result:
  "map_of (cs_characters cs) c = Some ch \<Longrightarrow>
   fst (changeFavor cs c d) = max 0 (min (maxFavor ch) (favor ch + d)) - favor ch"
  by (simp add: changeFavor_def Let_def)

lemma changeFavor_unknown:
  "map_of (cs_characters cs) c = None \<Longrightarrow> changeFavor cs c d = (0, cs)"
  by (simp add: changeFavor_def)

lemma list_all_update:
  "list_all (\<lambda>(k, v). P v) al \<Longrightarrow> P v' \<Longrightarrow> list_all (\<lambda>(k, v). P v) (AList.update k' v' al)"
  by (induction al) auto

lemma map_of_list_all:
  "list_all (\<lambda>(k, v). P v) al \<Longrightarrow> map_of al k = Some v \<Longrightarrow> P v"
  by (induction al) (auto split: if_splits)

lemma favorInvariant_changeFavor:
  assumes "favorInvariant cs"
  shows "favorInvariant (snd (changeFavor cs c d))"
proof (cases "map_of (cs_characters cs) c")
  case None
  then show ?thesis using assms by (simp add: changeFavor_unknown)
next
  case (Some ch)
  from assms have all: "list_all (\<lambda>(k, v). 0 \<le> favor v \<and> favor v \<le> maxFavor v) (cs_characters cs)"
    by (simp add: favorInvariant_def)
  from map_of_list_all [OF all Some] have "0 \<le> maxFavor ch" by simp
  then have "0 \<le> favor (ch\<lparr>favor := max 0 (min (maxFavor ch) (favor ch + d))\<rparr>) \<and>
             favor (ch\<lparr>favor := max 0 (min (maxFavor ch) (favor ch + d))\<rparr>)
               \<le> maxFavor (ch\<lparr>favor := max 0 (min (maxFavor ch) (favor ch + d))\<rparr>)"
    by simp
  from list_all_update [where P = "\<lambda>v. 0 \<le> favor v \<and> favor v \<le> maxFavor v", OF all this]
  show ?thesis
    by (simp add: favorInvariant_def changeFavor_characters [OF Some])
qed

lemma favorInvariant_changeFavors:
  "favorInvariant cs \<Longrightarrow> favorInvariant (changeFavors cs ops)"
  by (induction cs ops rule: changeFavors.induct) (auto intro: favorInvariant_changeFavor)

lemma heroine_at_lookup:
  "map_of (cs_characters (heroine_at f)) ''heroine_1'' = Some (heroine_1_data f)"
  by (simp add: heroine_at_def importData_cs_def initializeCharacters_def characterConfig_def
      CharacterSystem_new_def num_or_def heroine_1_data_def)

lemma heroine_1_data_fields:
  "favor (heroine_1_data f) = f" "maxFavor (heroine_1_data f) = 1000"
  "name (heroine_1_data f) = cfg_name (hd characterConfig)"
  "unlocked (heroine_1_data f) = False"
  "(heroine_1_data f)\<lparr>favor := x\<rparr> = heroine_1_data x"
  by (simp_all add: heroine_1_data_def)

lemma heroine_at_emitted: "cs_emitted (heroine_at f) = []"
  by (simp add: heroine_at_def importData_cs_def initializeCharacters_def characterConfig_def
      CharacterSystem_new_def num_or_def)

text \<open>
  Claim C1, as the code has it. With \<open>maxFavor = 1000\<close> a favor of 300 is level 3 (the
  ratio 0.30 lies between the thresholds 0.25 and 0.40), not level 4; one call of
  \<open>changeFavor\<close> with delta 400 returns 400 and leaves the favor at 700, which is level 6.
\<close>

theorem C1_changeFavor_300_plus_400:
  "getFavorLevel (heroine_at 300) ''heroine_1'' = 3 \<and>
   fst (changeFavor (heroine_at 300) ''heroine_1'' 400) = 400 \<and>
   map_option favor (getCharacter (snd (changeFavor (heroine_at 300) ''heroine_1'' 400)) ''heroine_1'')
     = Some 700 \<and>
   map_option maxFavor (getCharacter (snd (changeFavor (heroine_at 300) ''heroine_1'' 400)) ''heroine_1'')
     = Some 1000 \<and>
   getFavorLevel (snd (changeFavor (heroine_at 300) ''heroine_1'' 400)) ''heroine_1'' = 6"
  by (simp add: getFavorLevel_def getCharacter_def favorLevelOf_def Let_def heroine_1_data_fields
      heroine_at_lookup changeFavor_characters changeFavor_result update_conv')

text \<open>
  Claim C1 as stated fails at its own scenario: the character at 300 of 1000 is not at
  level 4, and the call with delta 400 does not emit exactly one \<open>favorLevelUp\<close>
  notification (\<open>checkFavorLevel\<close> compares the level after the change with itself).
\<close>

theorem C1_level_up_counterexample:
  "getFavorLevel (heroine_at 300) ''heroine_1'' \<noteq> 4 \<and>
   length (favorLevelUps (cs_emitted (snd (changeFavor (heroine_at 300) ''heroine_1'' 400)))) \<noteq> 1"
  by (simp add: getFavorLevel_def favorLevelOf_def Let_def heroine_1_data_fields heroine_at_lookup
      changeFavor_emitted heroine_at_emitted favorLevelUps_def)

text \<open>
  Claim C3. For a character \<open>c\<close> of the roster whose \<open>maxFavor\<close> is not negative and every
  integer \<open>d\<close>, after \<open>changeFavor c d\<close> the stored favor of \<open>c\<close> lies in \<open>[0, maxFavor]\<close>,
  whatever it was before; and when every character of the roster is within its bounds,
  every sequence of favor mutations leaves every character within its bounds.
\<close>

theorem C3_changeFavor_clamped:
  "(map_of (cs_characters cs) c = Some ch \<and> 0 \<le> maxFavor ch \<longrightarrow>
      (case map_of (cs_characters (snd (changeFavor cs c d))) c of
         None \<Rightarrow> False
       | Some ch' \<Rightarrow> maxFavor ch' = maxFavor ch \<and> 0 \<le> favor ch' \<and> favor ch' \<le> maxFavor ch'))
   \<and> (favorInvariant cs \<longrightarrow> favorInvariant (changeFavors cs ops))"
proof (intro conjI impI)
  assume a: "map_of (cs_characters cs) c = Some ch \<and> 0 \<le> maxFavor ch"
  then have "map_of (cs_characters (snd (changeFavor cs c d))) c
             = Some (ch\<lparr>favor := max 0 (min (maxFavor ch) (favor ch + d))\<rparr>)"
    by (simp add: changeFavor_characters update_conv')
  with a show "case map_of (cs_characters (snd (changeFavor cs c d))) c of
         None \<Rightarrow> False
       | Some ch' \<Rightarrow> maxFavor ch' = maxFavor ch \<and> 0 \<le> favor ch' \<and> favor ch' \<le> maxFavor ch'"
    by simp
next
  assume "favorInvariant cs"
  then show "favorInvariant (changeFavors cs ops)" by (rule favorInvariant_changeFavors)
qed

text \<open>
  Witness for C3: the first heroine at 990 of 1000 gains 50 and stops at 1000; the whole
  roster stays within bounds through a gain and a loss.
\<close>

theorem C3_changeFavor_clamped_witness:
  "map_of (cs_characters (heroine_at 990)) ''heroine_1'' = Some (heroine_1_data 990)
   \<and> 0 \<le> maxFavor (heroine_1_data 990)
   \<and> favorInvariant (heroine_at 990)
   \<and> (case map_of (cs_characters (snd (changeFavor (heroine_at 990) ''heroine_1'' 50))) ''heroine_1'' of
         None \<Rightarrow> False
       | Some ch' \<Rightarrow> maxFavor ch' = 1000 \<and> 0 \<le> favor ch' \<and> favor ch' \<le> maxFavor ch')
   \<and> favorInvariant (changeFavors (heroine_at 990) [(''heroine_1'', 50), (''heroine_2'', - 7)])"
proof -
  note t = C3_changeFavor_clamped [of "heroine_at 990" "''heroine_1''" "heroine_1_data 990" 50
      "[(''heroine_1'', 50), (''heroine_2'', - 7)]"]
  have l: "map_of (cs_characters (heroine_at 990)) ''heroine_1'' = Some (heroine_1_data 990)"
    by (rule heroine_at_lookup)
  have m: "0 \<le> maxFavor (heroine_1_data 990)"
    by (simp add: heroine_1_data_fields)
  have i: "favorInvariant (heroine_at 990)"
    by code_simp
  from t l m have c1:
    "case map_of (cs_characters (snd (changeFavor (heroine_at 990) ''heroine_1'' 50))) ''heroine_1'' of
         None \<Rightarrow> False
       | Some ch' \<Rightarrow> maxFavor ch' = 1000 \<and> 0 \<le> favor ch' \<and> favor ch' \<le> maxFavor ch'"
    by (auto simp: heroine_1_data_fields split: option.splits)
  from t i have c2:
    "favorInvariant (changeFavors (heroine_at 990) [(''heroine_1'', 50), (''heroine_2'', - 7)])"
    by blast
  show ?thesis using l m i c1 c2 by blast
qed

text \<open>
  Claim C5. For a character of the roster, \<open>changeFavor\<close> returns the new favor minus
  the old one, and what it emits is one \<open>favorChanged\<close> notification carrying that
  difference and the new value (nothing when the difference is zero). From favor 0 of
  1000, a change of 15 and then one of 20 return 15 and 20, leave the favor at 35, emit
  exactly the two notifications with deltas 15 and 20, and the level is 1 throughout.
\<close>

theorem C5_changeFavor_actual_delta:
  "(map_of (cs_characters cs) c = Some ch \<longrightarrow>
      (case map_of (cs_characters (snd (changeFavor cs c d))) c of
         None \<Rightarrow> False
       | Some ch' \<Rightarrow>
           fst (changeFavor cs c d) = favor ch' - favor ch \<and>
           cs_emitted (snd (changeFavor cs c d)) =
             cs_emitted cs @
               (if favor ch' = favor ch then []
                else [FavorChanged c (name ch) (favor ch' - favor ch) (favor ch')])))
   \<and> (let s1 = snd (changeFavor (heroine_at 0) ''heroine_1'' 15);
           s2 = snd (changeFavor s1 ''heroine_1'' 20)
       in fst (changeFavor (heroine_at 0) ''heroine_1'' 15) = 15 \<and>
          fst (changeFavor s1 ''heroine_1'' 20) = 20 \<and>
          map_option favor (getCharacter s2 ''heroine_1'') = Some 35 \<and>
          cs_emitted s2 =
            [FavorChanged ''heroine_1'' (cfg_name (hd characterConfig)) 15 15,
             FavorChanged ''heroine_1'' (cfg_name (hd characterConfig)) 20 35] \<and>
          getFavorLevel (heroine_at 0) ''heroine_1'' = 1 \<and>
          getFavorLevel s1 ''heroine_1'' = 1 \<and> getFavorLevel s2 ''heroine_1'' = 1)"
proof (intro conjI impI)
  assume a: "map_of (cs_characters cs) c = Some ch"
  show "case map_of (cs_characters (snd (changeFavor cs c d))) c of
         None \<Rightarrow> False
       | Some ch' \<Rightarrow>
           fst (changeFavor cs c d) = favor ch' - favor ch \<and>
           cs_emitted (snd (changeFavor cs c d)) =
             cs_emitted cs @
               (if favor ch' = favor ch then []
                else [FavorChanged c (name ch) (favor ch' - favor ch) (favor ch')])"
    by (simp add: changeFavor_characters [OF a] changeFavor_result [OF a]
        changeFavor_emitted [OF a] update_conv')
next
  let ?s1 = "snd (changeFavor (heroine_at 0) ''heroine_1'' 15)"
  have l0: "map_of (cs_characters (heroine_at 0)) ''heroine_1'' =
     Some (heroine_1_data 0)"
    by (rule heroine_at_lookup)
  have l1: "map_of (cs_characters ?s1) ''heroine_1'' =
     Some (heroine_1_data 15)"
    by (simp add: changeFavor_characters [OF l0] update_conv' heroine_1_data_fields)
  have e1: "cs_emitted ?s1 = [FavorChanged ''heroine_1'' (cfg_name (hd characterConfig)) 15 15]"
    by (simp add: changeFavor_emitted [OF l0] heroine_at_emitted heroine_1_data_fields)
  show "let s1 = snd (changeFavor (heroine_at 0) ''heroine_1'' 15);
           s2 = snd (changeFavor s1 ''heroine_1'' 20)
       in fst (changeFavor (heroine_at 0) ''heroine_1'' 15) = 15 \<and>
          fst (changeFavor s1 ''heroine_1'' 20) = 20 \<and>
          map_option favor (getCharacter s2 ''heroine_1'') = Some 35 \<and>
          cs_emitted s2 =
            [FavorChanged ''heroine_1'' (cfg_name (hd characterConfig)) 15 15,
             FavorChanged ''heroine_1'' (cfg_name (hd characterConfig)) 20 35] \<and>
          getFavorLevel (heroine_at 0) ''heroine_1'' = 1 \<and>
          getFavorLevel s1 ''heroine_1'' = 1 \<and> getFavorLevel s2 ''heroine_1'' = 1"
    by (simp add: changeFavor_result [OF l0] changeFavor_result [OF l1]
        changeFavor_characters [OF l1] changeFavor_emitted [OF l1] e1 l0 l1
        getCharacter_def getFavorLevel_def favorLevelOf_def Let_def heroine_1_data_fields update_conv')
qed

text \<open>
  Witness for C5 at a clamp bound: at 990 of 1000 a requested change of 50 returns 10 and
  the notification carries 10.
\<close>

theorem C5_changeFavor_actual_delta_witness:
  "map_of (cs_characters (heroine_at 990)) ''heroine_1'' =
     Some (heroine_1_data 990)
   \<and> fst (changeFavor (heroine_at 990) ''heroine_1'' 50) = 10
   \<and> cs_emitted (snd (changeFavor (heroine_at 990) ''heroine_1'' 50)) =
       [FavorChanged ''heroine_1'' (cfg_name (hd characterConfig)) 10 1000]"
proof -
  have l: "map_of (cs_characters (heroine_at 990)) ''heroine_1'' =
     Some (heroine_1_data 990)"
    by (rule heroine_at_lookup)
  have c: "map_of (cs_characters (snd (changeFavor (heroine_at 990) ''heroine_1'' 50))) ''heroine_1'' =
     Some (heroine_1_data 1000)"
    by (simp add: changeFavor_characters [OF l] update_conv' heroine_1_data_fields)
  from C5_changeFavor_actual_delta [of "heroine_at 990" "''heroine_1''" _ 50] l c
  show ?thesis by (simp add: heroine_at_emitted heroine_1_data_fields)
qed

text \<open>
  Claim C9. A second call of \<open>unlockCharacter\<close> on the same character returns false and
  changes nothing; for a locked character of the roster the first call succeeds, the
  character is unlocked after both calls, and the two calls together emit exactly one
  \<open>characterUnlocked\<close> notification.
\<close>

theorem C9_unlockCharacter_idempotent:
  "snd (unlockCharacter (snd (unlockCharacter cs c)) c) = snd (unlockCharacter cs c)
   \<and> \<not> fst (unlockCharacter (snd (unlockCharacter cs c)) c)
   \<and> (map_of (cs_characters cs) c = Some ch \<and> \<not> unlocked ch \<longrightarrow>
        fst (unlockCharacter cs c) \<and>
        map_option unlocked (getCharacter (snd (unlockCharacter (snd (unlockCharacter cs c)) c)) c)
          = Some True \<and>
        cs_emitted (snd (unlockCharacter (snd (unlockCharacter cs c)) c)) =
          cs_emitted cs @ [CharacterUnlocked (ch\<lparr>unlocked := True\<rparr>)])"
  by (auto simp: unlockCharacter_def Let_def emit_cs_def getCharacter_def update_conv'
      split: option.splits)

text \<open>Witness for C9: the first heroine of a fresh roster is unlocked twice.\<close>

theorem C9_unlockCharacter_idempotent_witness:
  "map_of (cs_characters (heroine_at 0)) ''heroine_1'' =
     Some (heroine_1_data 0)
   \<and> length (cs_emitted (snd (unlockCharacter (snd (unlockCharacter (heroine_at 0) ''heroine_1''))
        ''heroine_1''))) = 1
   \<and> \<not> fst (unlockCharacter (snd (unlockCharacter (heroine_at 0) ''heroine_1'')) ''heroine_1'')"
proof -
  note t = C9_unlockCharacter_idempotent [of "heroine_at 0" "''heroine_1''" "heroine_1_data 0"]
  have l: "map_of (cs_characters (heroine_at 0)) ''heroine_1'' = Some (heroine_1_data 0)"
    by (rule heroine_at_lookup)
  have u: "\<not> unlocked (heroine_1_data 0)"
    by (simp add: heroine_1_data_fields)
  from t have r2: "\<not> fst (unlockCharacter (snd (unlockCharacter (heroine_at 0) ''heroine_1'')) ''heroine_1'')"
    by blast
  from t l u have e:
    "cs_emitted (snd (unlockCharacter (snd (unlockCharacter (heroine_at 0) ''heroine_1'')) ''heroine_1''))
       = cs_emitted (heroine_at 0) @ [CharacterUnlocked ((heroine_1_data 0)\<lparr>unlocked := True\<rparr>)]"
    by blast
  show ?thesis using l r2 e by (simp add: heroine_at_emitted)
qed

text \<open>
  Claim C10. For an id that is not in the roster, \<open>changeFavor\<close> returns 0 and leaves
  the whole system, its notification log included, as it was; \<open>getFavorLevel\<close> returns 0,
  which is outside the level range 1 to 7.
\<close>

theorem C10_unknown_character:
  "map_of (cs_characters cs) c = None \<longrightarrow>
     changeFavor cs c d = (0, cs) \<and> getFavorLevel cs c = 0
     \<and> \<not> (1 \<le> getFavorLevel cs c \<and> getFavorLevel cs c \<le> 7)"
  by (simp add: changeFavor_def getFavorLevel_def)

text \<open>Witness for C10: the id \<open>nobody\<close> is not in the shipped roster.\<close>

theorem C10_unknown_character_witness:
  "map_of (cs_characters (heroine_at 0)) ''nobody'' = None
   \<and> changeFavor (heroine_at 0) ''nobody'' 25 = (0, heroine_at 0)
   \<and> getFavorLevel (heroine_at 0) ''nobody'' = 0"
proof -
  have n: "map_of (cs_characters (heroine_at 0)) ''nobody'' = None"
    by (simp add: heroine_at_def importData_cs_def initializeCharacters_def characterConfig_def
      CharacterSystem_new_def num_or_def)
  from C10_unknown_character [of "heroine_at 0" "''nobody''" 25] n
  show ?thesis by simp
qed

section \<open>Properties of the GameStateMachine\<close>

lemma machine_playing_mode: "currentState machine_playing = PLAYING"
  by (simp add: machine_playing_def Let_def changeState_def canTransition_def
      GameStateMachine_new_def shouldPushToStack_def pushStates_def)

text \<open>
  Claim C6. A request for a state that is not in the allowed set of the current state
  returns false and leaves the machine as it was: current and previous state, the history
  stack and the notification log. In particular \<open>credits\<close> is refused in \<open>playing\<close>.
\<close>

theorem C6_illegal_transition_rejected:
  "(newState \<notin> set (STATE_TRANSITIONS (currentState m)) \<longrightarrow> changeState m newState d = (False, m))
   \<and> changeState (m\<lparr>currentState := PLAYING\<rparr>) CREDITS d = (False, m\<lparr>currentState := PLAYING\<rparr>)"
  by (simp add: changeState_def canTransition_def)

text \<open>
  Witness for C6: the machine that start-up has brought to \<open>playing\<close> is asked for
  \<open>credits\<close>.
\<close>

theorem C6_illegal_transition_rejected_witness:
  "currentState machine_playing = PLAYING
   \<and> CREDITS \<notin> set (STATE_TRANSITIONS (currentState machine_playing))
   \<and> changeState machine_playing CREDITS None = (False, machine_playing)"
proof -
  have n: "CREDITS \<notin> set (STATE_TRANSITIONS (currentState machine_playing))"
    by (simp add: machine_playing_mode)
  from C6_illegal_transition_rejected [of CREDITS machine_playing None] n
  show ?thesis by (simp add: machine_playing_mode)
qed

section \<open>Properties of the SaveLoadSystem\<close>

lemma game_saving_busy: "isSaving (saveLoad game_saving)"
  by (simp add: game_saving_def)

text \<open>
  Claim C8. While \<open>_isSaving\<close> is set, a call of \<open>save\<close> for any slot returns false and
  leaves the whole program state as it was: the storage, the save system and every other
  component.
\<close>

theorem C8_save_rejected_while_saving:
  "isSaving (saveLoad g) \<longrightarrow> save g sl d now = (False, g)"
  by (simp add: save_def)

text \<open>Witness for C8: a save to slot 0 while a save is under way.\<close>

theorem C8_save_rejected_while_saving_witness:
  "isSaving (saveLoad game_saving) \<and> save game_saving 0 None 5000 = (False, game_saving)
   \<and> localStorage (snd (save game_saving 0 None 5000)) = localStorage game_saving"
  using C8_save_rejected_while_saving [of game_saving 0 None 5000] game_saving_busy
  by simp

section \<open>Properties of the FlagManager\<close>

lemma get_flag_set_flag:
  "get_flag (set_flag fm key v) k = (if k = key then v else get_flag fm k)"
  by (auto simp: get_flag_def set_flag_def Let_def update_conv' split: option.splits)

lemma definitions_set_flag: "fm_definitions (set_flag fm key v) = fm_definitions fm"
  by (simp add: set_flag_def Let_def)

lemma set_flag_same: "set_flag fm key (get_flag fm key) = fm"
  by (simp add: set_flag_def get_flag_def)

lemma wf_set_flag: "wf_fm fm \<Longrightarrow> wf_fm (set_flag fm key v)"
  by (simp add: wf_fm_def set_flag_def Let_def distinct_update)

lemma get_flag_foldl_set:
  "distinct (map fst data) \<Longrightarrow>
   get_flag (foldl (\<lambda>s (key, v). set_flag s key v) s data) k =
     (case map_of data k of None \<Rightarrow> get_flag s k | Some v \<Rightarrow> v)"
proof (induction data arbitrary: s)
  case Nil
  then show ?case by simp
next
  case (Cons p data)
  obtain key v where p: "p = (key, v)" by (cases p)
  from Cons.prems have d: "distinct (map fst data)" and nk: "key \<notin> fst ` set data"
    by (auto simp: p)
  from nk have none: "map_of data key = None"
    by (simp add: map_of_eq_None_iff)
  show ?case
    using Cons.IH [OF d, of "set_flag s key v"] none
    by (auto simp: p get_flag_set_flag split: option.splits)
qed

lemma definitions_foldl_set:
  "fm_definitions (foldl (\<lambda>s (key, v). set_flag s key v) s data) = fm_definitions s"
  by (induction data arbitrary: s) (auto simp: definitions_set_flag)

lemma reset_fold_flags:
  "foldl (\<lambda>s (key, d). s\<lparr>fm_flags := AList.update key (defaultValue d) (fm_flags s)\<rparr>) fm ds =
   fm\<lparr>fm_flags := foldl (\<lambda>fl (key, d). AList.update key (defaultValue d) fl) (fm_flags fm) ds\<rparr>"
  by (induction ds arbitrary: fm) (auto)

lemma map_of_foldl_defaults:
  "distinct (map fst ds) \<Longrightarrow>
   map_of (foldl (\<lambda>fl (key, d). AList.update key (defaultValue d) fl) fl ds) k =
     (case map_of ds k of None \<Rightarrow> map_of fl k | Some d \<Rightarrow> Some (defaultValue d))"
proof (induction ds arbitrary: fl)
  case Nil
  then show ?case by simp
next
  case (Cons p ds)
  obtain key d where p: "p = (key, d)" by (cases p)
  from Cons.prems have dd: "distinct (map fst ds)" and nk: "key \<notin> fst ` set ds"
    by (auto simp: p)
  from nk have none: "map_of ds key = None"
    by (simp add: map_of_eq_None_iff)
  show ?case
    using Cons.IH [OF dd, of "AList.update key (defaultValue d) fl"] none
    by (auto simp: p update_conv' split: option.splits)
qed

lemma get_flag_reset:
  "distinct (map fst (fm_definitions fm)) \<Longrightarrow>
   get_flag (reset_fm fm) k =
     (case map_of (fm_definitions fm) k of None \<Rightarrow> get_flag fm k | Some d \<Rightarrow> defaultValue d)"
  by (simp add: reset_fm_def Let_def reset_fold_flags get_flag_def map_of_foldl_defaults
      split: option.splits)

lemma definitions_reset: "fm_definitions (reset_fm fm) = fm_definitions fm"
  by (simp add: reset_fm_def Let_def reset_fold_flags)

lemma get_flag_importData:
  assumes "distinct (map fst (fm_definitions fm))" and "distinct (map fst data)"
  shows "get_flag (importData_fm fm data) k =
     (case map_of data k of
        Some v \<Rightarrow> v
      | None \<Rightarrow> (case map_of (fm_definitions fm) k of
                   None \<Rightarrow> get_flag fm k | Some d \<Rightarrow> defaultValue d))"
  using assms
  by (simp add: importData_fm_def get_flag_foldl_set get_flag_reset split: option.splits)

lemma map_of_export_fold:
  "distinct (map fst fl) \<Longrightarrow>
   map_of (foldl (\<lambda>data (key, v).
              case map_of ds key of
                None \<Rightarrow> data
              | Some d \<Rightarrow> if v \<noteq> defaultValue d then AList.update key v data else data) acc fl) k =
     (case map_of fl k of
        None \<Rightarrow> map_of acc k
      | Some v \<Rightarrow> (case map_of ds k of
                     None \<Rightarrow> map_of acc k
                   | Some d \<Rightarrow> if v \<noteq> defaultValue d then Some v else map_of acc k))"
proof (induction fl arbitrary: acc)
  case Nil
  then show ?case by simp
next
  case (Cons p fl)
  obtain key v where p: "p = (key, v)" by (cases p)
  from Cons.prems have dd: "distinct (map fst fl)" and nk: "key \<notin> fst ` set fl"
    by (auto simp: p)
  from nk have none: "map_of fl key = None"
    by (simp add: map_of_eq_None_iff)
  show ?case
    using Cons.IH [OF dd] none
    by (auto simp: p update_conv' split: option.splits)
qed

lemma map_of_exportData:
  "distinct (map fst (fm_flags fm)) \<Longrightarrow>
   map_of (exportData_fm fm) k =
     (case map_of (fm_flags fm) k of
        None \<Rightarrow> None
      | Some v \<Rightarrow> (case map_of (fm_definitions fm) k of
                     None \<Rightarrow> None
                   | Some d \<Rightarrow> if v \<noteq> defaultValue d then Some v else None))"
  by (simp add: exportData_fm_def map_of_export_fold split: option.splits)

lemma distinct_export_fold:
  "distinct (map fst acc) \<Longrightarrow>
   distinct (map fst (foldl (\<lambda>data (key, v).
              case map_of ds key of
                None \<Rightarrow> data
              | Some d \<Rightarrow> if v \<noteq> defaultValue d then AList.update key v data else data) acc fl))"
  by (induction fl arbitrary: acc) (auto simp: distinct_update split: option.splits)

lemma distinct_exportData: "distinct (map fst (exportData_fm fm))"
  by (simp add: exportData_fm_def distinct_export_fold)

lemma fresh_store_foldl:
  "wf_fm fm \<and>
   (\<forall>k. map_of (fm_flags fm) k = map_option defaultValue (map_of (fm_definitions fm) k)) \<Longrightarrow>
   wf_fm (foldl (\<lambda>fm d. fm\<lparr>fm_definitions := AList.update (def_key d) d (fm_definitions fm),
                       fm_flags := AList.update (def_key d) (defaultValue d) (fm_flags fm)\<rparr>) fm ds) \<and>
   (\<forall>k. map_of (fm_flags (foldl (\<lambda>fm d. fm\<lparr>fm_definitions := AList.update (def_key d) d (fm_definitions fm),
                       fm_flags := AList.update (def_key d) (defaultValue d) (fm_flags fm)\<rparr>) fm ds)) k =
        map_option defaultValue
          (map_of (fm_definitions (foldl (\<lambda>fm d. fm\<lparr>fm_definitions := AList.update (def_key d) d (fm_definitions fm),
                       fm_flags := AList.update (def_key d) (defaultValue d) (fm_flags fm)\<rparr>) fm ds)) k))"
proof (induction ds arbitrary: fm)
  case Nil
  then show ?case by simp
next
  case (Cons d ds)
  have "wf_fm (fm\<lparr>fm_definitions := AList.update (def_key d) d (fm_definitions fm),
                  fm_flags := AList.update (def_key d) (defaultValue d) (fm_flags fm)\<rparr>) \<and>
        (\<forall>k. map_of (fm_flags (fm\<lparr>fm_definitions := AList.update (def_key d) d (fm_definitions fm),
                  fm_flags := AList.update (def_key d) (defaultValue d) (fm_flags fm)\<rparr>)) k =
           map_option defaultValue
             (map_of (fm_definitions (fm\<lparr>fm_definitions := AList.update (def_key d) d (fm_definitions fm),
                  fm_flags := AList.update (def_key d) (defaultValue d) (fm_flags fm)\<rparr>)) k))"
    using Cons.prems by (simp add: wf_fm_def distinct_update update_conv')
  from Cons.IH [OF this] show ?case by simp
qed

lemma fresh_store_defaults:
  "wf_fm (FlagManager_new ds) \<and>
   (\<forall>k. map_of (fm_flags (FlagManager_new ds)) k =
        map_option defaultValue (map_of (fm_definitions (FlagManager_new ds)) k))"
  unfolding FlagManager_new_def
  by (rule fresh_store_foldl) (simp add: wf_fm_def)

lemma wf_new: "wf_fm (FlagManager_new ds)"
  using fresh_store_defaults [of ds] by simp

lemma get_flag_new:
  "get_flag (FlagManager_new ds) k =
     (case map_of (fm_definitions (FlagManager_new ds)) k of None \<Rightarrow> False | Some d \<Rightarrow> defaultValue d)"
  using fresh_store_defaults [of ds] by (simp add: get_flag_def split: option.splits)

lemma export_after_default:
  assumes "wf_fm fm" and "map_of (fm_definitions fm) k = Some d"
  shows "map_of (exportData_fm (set_flag fm k (defaultValue d))) k = None"
proof -
  have wf: "distinct (map fst (fm_flags (set_flag fm k (defaultValue d))))"
    using wf_set_flag [OF assms(1)] by (simp add: wf_fm_def)
  have g: "get_flag (set_flag fm k (defaultValue d)) k = defaultValue d"
    by (simp add: get_flag_set_flag)
  show ?thesis
    using g assms(2)
    by (auto simp: map_of_exportData [OF wf] definitions_set_flag get_flag_def split: option.splits)
qed

text \<open>
  Claim C7. The export holds a key exactly when the key is declared, has a stored value
  and that value differs from the declared default. After an import every declared flag
  has the value the imported data gives it, and its declared default when the data has
  no entry for it. So when a flag is set to its own default in any store, the store is
  exported and the export is imported into a fresh store, the flag reads as it does in
  the fresh store itself; and on a fresh store setting a flag to its default changes
  nothing at all.
\<close>

theorem C7_sparse_flag_export_import:
  "(wf_fm fm \<longrightarrow>
      (map_of (exportData_fm fm) k = Some v \<longleftrightarrow>
         (\<exists>d. map_of (fm_definitions fm) k = Some d \<and> map_of (fm_flags fm) k = Some v
              \<and> v \<noteq> defaultValue d)))
   \<and> (wf_fm fm \<and> distinct (map fst data) \<and> map_of (fm_definitions fm) k = Some d \<longrightarrow>
        get_flag (importData_fm fm data) k =
          (case map_of data k of Some b \<Rightarrow> b | None \<Rightarrow> defaultValue d))
   \<and> (wf_fm fm \<and> map_of (fm_definitions fm) k = Some d
        \<and> map_of (fm_definitions (FlagManager_new ds)) k = Some d' \<longrightarrow>
        get_flag (importData_fm (FlagManager_new ds) (exportData_fm (set_flag fm k (defaultValue d)))) k
          = get_flag (FlagManager_new ds) k)
   \<and> (map_of (fm_definitions (FlagManager_new ds)) k = Some d' \<longrightarrow>
        set_flag (FlagManager_new ds) k (defaultValue d') = FlagManager_new ds)"
proof (intro conjI impI)
  assume "wf_fm fm"
  then have "distinct (map fst (fm_flags fm))" by (simp add: wf_fm_def)
  from map_of_exportData [OF this, of k]
  show "map_of (exportData_fm fm) k = Some v \<longleftrightarrow>
         (\<exists>d. map_of (fm_definitions fm) k = Some d \<and> map_of (fm_flags fm) k = Some v
              \<and> v \<noteq> defaultValue d)"
    by (auto split: option.splits if_splits)
next
  assume a: "wf_fm fm \<and> distinct (map fst data) \<and> map_of (fm_definitions fm) k = Some d"
  then have "distinct (map fst (fm_definitions fm))" by (simp add: wf_fm_def)
  from get_flag_importData [OF this, of data k] a
  show "get_flag (importData_fm fm data) k =
          (case map_of data k of Some b \<Rightarrow> b | None \<Rightarrow> defaultValue d)"
    by (simp split: option.splits)
next
  assume a: "wf_fm fm \<and> map_of (fm_definitions fm) k = Some d
        \<and> map_of (fm_definitions (FlagManager_new ds)) k = Some d'"
  have none: "map_of (exportData_fm (set_flag fm k (defaultValue d))) k = None"
    using a export_after_default by blast
  have dn: "distinct (map fst (fm_definitions (FlagManager_new ds)))"
    using wf_new [of ds] by (simp add: wf_fm_def)
  show "get_flag (importData_fm (FlagManager_new ds) (exportData_fm (set_flag fm k (defaultValue d)))) k
          = get_flag (FlagManager_new ds) k"
    using a none
    by (simp add: get_flag_importData [OF dn distinct_exportData] get_flag_new)
next
  assume a: "map_of (fm_definitions (FlagManager_new ds)) k = Some d'"
  then have "get_flag (FlagManager_new ds) k = defaultValue d'"
    by (simp add: get_flag_new)
  then show "set_flag (FlagManager_new ds) k (defaultValue d') = FlagManager_new ds"
    using set_flag_same [of "FlagManager_new ds" k] by simp
qed

text \<open>
  Witness for C7: the store of the game in progress, where \<open>polite\<close> is set, and the fresh
  store built from \<open>FLAG_DEFINITIONS\<close>.
\<close>

theorem C7_sparse_flag_export_import_witness:
  "wf_fm (flagManager game_in_progress)
   \<and> distinct (map fst [(''cold'', True)])
   \<and> map_of (fm_definitions (flagManager game_in_progress)) ''polite'' = Some polite_def
   \<and> map_of (fm_definitions (FlagManager_new FLAG_DEFINITIONS)) ''polite'' = Some polite_def
   \<and> map_of (exportData_fm (flagManager game_in_progress)) ''polite'' = Some True
   \<and> get_flag (importData_fm (flagManager game_in_progress) [(''cold'', True)]) ''polite'' = False
   \<and> get_flag (importData_fm (FlagManager_new FLAG_DEFINITIONS)
        (exportData_fm (set_flag (flagManager game_in_progress) ''polite'' False))) ''polite''
       = get_flag (FlagManager_new FLAG_DEFINITIONS) ''polite''
   \<and> set_flag (FlagManager_new FLAG_DEFINITIONS) ''polite'' False = FlagManager_new FLAG_DEFINITIONS"
proof -
  note t = C7_sparse_flag_export_import [of "flagManager game_in_progress" "''polite''" True
      "[(''cold'', True)]" polite_def FLAG_DEFINITIONS polite_def]
  have w: "wf_fm (flagManager game_in_progress)" by code_simp
  have dd: "distinct (map fst [(''cold'', True)])" by simp
  have fd: "map_of (fm_definitions (flagManager game_in_progress)) ''polite'' = Some polite_def"
    by code_simp
  have nd: "map_of (fm_definitions (FlagManager_new FLAG_DEFINITIONS)) ''polite'' = Some polite_def"
    by code_simp
  have fv: "map_of (fm_flags (flagManager game_in_progress)) ''polite'' = Some True"
    by code_simp
  have dv: "defaultValue polite_def = False" by (simp add: polite_def_def)
  from t w fd fv dv have c1: "map_of (exportData_fm (flagManager game_in_progress)) ''polite'' = Some True"
    by simp
  from t w dd fd dv have c2:
    "get_flag (importData_fm (flagManager game_in_progress) [(''cold'', True)]) ''polite'' = False"
    by simp
  from t w fd nd dv have c3:
    "get_flag (importData_fm (FlagManager_new FLAG_DEFINITIONS)
        (exportData_fm (set_flag (flagManager game_in_progress) ''polite'' False))) ''polite''
       = get_flag (FlagManager_new FLAG_DEFINITIONS) ''polite''"
    by simp
  from t nd dv have c4:
    "set_flag (FlagManager_new FLAG_DEFINITIONS) ''polite'' False = FlagManager_new FLAG_DEFINITIONS"
    by simp
  show ?thesis using w dd fd nd c1 c2 c3 c4 by blast
qed

section \<open>Saving a snapshot and applying it\<close>

text \<open>
  Claim C2, at a concrete game. A snapshot is taken of the game in progress (flag
  \<open>polite\<close> set, chapter \<open>ch00\<close> at node \<open>ch00_start\<close>, first heroine at 120); play goes on
  (flag cleared, next node, favor 320); the snapshot is applied. The favor is back at 120,
  but the snapshot holds no flags and the flag stays cleared, the snapshot's chapter is
  the mode name \<open>dialog\<close> and its node is empty, and the story stays at node \<open>ch00_01\<close>.
  Applied through \<open>GameManager.applySaveData\<close> right after it was taken, the snapshot
  resets the flag to its default.
\<close>

theorem C2_snapshot_does_not_restore_flags_and_cursor:
  "(let snap = collectSaveData game_in_progress 0 None 5000;
        g = snd (applySaveData game_later snap 9000)
    in get_flag (flagManager game_in_progress) ''polite'' = True
       \<and> flags snap = []
       \<and> get_flag (flagManager g) ''polite'' = False
       \<and> get_flag (flagManager (applySaveData_GameManager game_in_progress snap)) ''polite'' = False
       \<and> map_option chapter_id (currentChapter (story game_in_progress)) = Some ''ch00''
       \<and> currentNodeId (story game_in_progress) = ''ch00_start''
       \<and> currentState (stateMachine game_in_progress) = DIALOG
       \<and> save_chapter snap = ''dialog'' \<and> save_node snap = []
       \<and> currentNodeId (story g) = ''ch00_01''
       \<and> map_option favor (getCharacter (characterSystem game_later) ''heroine_1'') = Some 320
       \<and> map_option favor (getCharacter (characterSystem g) ''heroine_1'') = Some 120)"
  by code_simp

section \<open>Properties of the StoryManager\<close>







































end
